theory Spec2Isabelle
  imports Main "HOL-Library.Sublist"
begin

section \<open>GitHub file operations (src/github/operations/files.ts)\<close>

text \<open>
  A shallow embedding of the file operations of the GitHub server: \<open>getFileContents\<close>,
  \<open>decodeHTMLEntities\<close>, \<open>createOrUpdateFile\<close>, \<open>createTree\<close>, \<open>createCommit\<close>,
  \<open>updateReference\<close> and \<open>pushFiles\<close>.

  Strings are \<open>string\<close>, read as the UTF-8 bytes of the JavaScript string. The two regular
  expressions of the file only name ASCII characters, and a negated class or the dot
  consumes the bytes of any other character one after the other, so matching on bytes
  finds the same matches as matching on UTF-16 code units.
\<close>

subsection \<open>decodeHTMLEntities\<close>

text \<open>The table \<open>entities\<close> of the function, in the order of the source.\<close>

definition entities :: "(string \<times> string) list" where
  "entities =
     [(''&quot;'', [CHR 0x22]),
      (''&amp;'', ''&''),
      (''&apos;'', [CHR 0x27]),
      (''&lt;'', ''<''),
      (''&gt;'', ''>''),
      (''&#x27;'', [CHR 0x27])]"

text \<open>The replacer \<open>(match) => entities[match] || match\<close>: a missing key reads as
  \<open>undefined\<close> and an empty string is falsy; both give the match back.\<close>

definition replacer :: "string \<Rightarrow> string" where
  "replacer m = (case map_of entities m of
                   None \<Rightarrow> m
                 | Some r \<Rightarrow> (if r = [] then m else r))"

text \<open>The character class \<open>[a-zA-Z0-9#]\<close>.\<close>

definition entity_char :: "char \<Rightarrow> bool" where
  "entity_char c =
     (let n = (of_char c :: nat) in
        (97 \<le> n \<and> n \<le> 122) \<or> (65 \<le> n \<and> n \<le> 90) \<or> (48 \<le> n \<and> n \<le> 57) \<or> c = CHR ''#'')"

text \<open>
  One attempt of \<open>/&[a-zA-Z0-9#]+;/\<close> at the start of a string: the text matched and the
  text after it. The greedy \<open>+\<close> first takes the longest run of class characters; giving
  characters back cannot help, because the character after a shorter run is a class
  character and not the semicolon.
\<close>

definition entity_at :: "string \<Rightarrow> (string \<times> string) option" where
  "entity_at s =
     (case s of
        [] \<Rightarrow> None
      | c # cs \<Rightarrow>
          if c = CHR ''&'' then
            (case dropWhile entity_char cs of
               [] \<Rightarrow> None
             | d # rest \<Rightarrow>
                 if d = CHR '';'' \<and> takeWhile entity_char cs \<noteq> []
                 then Some (c # takeWhile entity_char cs @ [d], rest)
                 else None)
          else None)"

text \<open>
  \<open>str.replace(/&[a-zA-Z0-9#]+;/g, replacer)\<close>: the global replace scans from the left;
  where the pattern matches, the replacement is emitted and the scan goes on after the
  match; elsewhere the character is copied.
\<close>

function decodeHTMLEntities :: "string \<Rightarrow> string" where
  "decodeHTMLEntities s =
     (case s of
        [] \<Rightarrow> []
      | c # cs \<Rightarrow>
          (case entity_at s of
             Some (m, rest) \<Rightarrow> replacer m @ decodeHTMLEntities rest
           | None \<Rightarrow> c # decodeHTMLEntities cs))"
  by pat_completeness auto
termination
proof (relation "measure length")
  show "wf (measure length)" by simp
next
  fix s :: string and c cs x m rest
  assume s: "s = c # cs" and "entity_at s = Some x" and "(m, rest) = x"
  then have a: "entity_at (c # cs) = Some (m, rest)" by simp
  then obtain d where "dropWhile entity_char cs = d # rest"
    by (auto simp: entity_at_def split: if_splits list.splits)
  then have "length (d # rest) \<le> length cs"
    by (metis length_dropWhile_le)
  with s show "(rest, s) \<in> measure length" by simp
next
  fix s :: string and c cs
  assume "s = c # cs"
  then show "(cs, s) \<in> measure length" by simp
qed

declare decodeHTMLEntities.simps [simp del]

subsection \<open>The code block pattern of createOrUpdateFile\<close>

text \<open>
  \<open>html.match(/<code[^>]*?>(.*?)<\/code>/s)\<close>. The pattern has no \<open>g\<close> flag, so
  \<open>match\<close> gives the leftmost match only, or \<open>null\<close>; the function reads group 1.

  \<open>before_close\<close> is the lazy group \<open>(.*?)\<close> followed by \<open></code>\<close>: at each position
  the closing tag is tried first, and only then one more character (any character, by
  the \<open>s\<close> flag) is taken into the group.
\<close>

fun before_close :: "string \<Rightarrow> (string \<times> string) option" where
  "before_close [] = None"
| "before_close (c # cs) =
     (if prefix ''</code>'' (c # cs) then Some ([], drop 7 (c # cs))
      else map_option (\<lambda>(g, rest). (c # g, rest)) (before_close cs))"

text \<open>
  One attempt of the pattern at the start of a string: group 1 and the text after the
  match. After \<open><code\<close> the lazy class \<open>[^>]*?\<close> must stop at the first \<open>>\<close>, since it
  cannot step over one; when the rest finds no closing tag the attempt fails.
\<close>

definition code_at :: "string \<Rightarrow> (string \<times> string) option" where
  "code_at s =
     (if prefix ''<code'' s then
        (case dropWhile (\<lambda>c. c \<noteq> CHR ''>'') (drop 5 s) of
           [] \<Rightarrow> None
         | gt # inner \<Rightarrow> before_close inner)
      else None)"

text \<open>\<open>html.match(codeBlockRegex)\<close>, as \<open>match[1]\<close>: the attempts go from left to right.\<close>

fun match_code :: "string \<Rightarrow> string option" where
  "match_code [] = map_option fst (code_at [])"
| "match_code (c # cs) =
     (case code_at (c # cs) of
        Some (g, rest) \<Rightarrow> Some g
      | None \<Rightarrow> match_code cs)"

text \<open>
  The code block regions of a document, for stating how many there are: the groups of
  all successive matches of the pattern, each search starting where the match before it
  ended, as the same pattern would give them with the \<open>g\<close> flag.
\<close>

function code_regions :: "string \<Rightarrow> string list" where
  "code_regions s =
     (case s of
        [] \<Rightarrow> []
      | c # cs \<Rightarrow>
          (case code_at s of
             Some (g, rest) \<Rightarrow> g # code_regions rest
           | None \<Rightarrow> code_regions cs))"
  by pat_completeness auto
termination
proof (relation "measure length")
  show "wf (measure length)" by simp
next
  fix s :: string and c cs x g rest
  assume s: "s = c # cs" and "code_at s = Some x" and "(g, rest) = x"
  then have a: "code_at s = Some (g, rest)" by simp
  have bc: "before_close t = Some (h, r) \<Longrightarrow> length r < length t" for t h r
  proof (induction t arbitrary: h)
    case Nil
    then show ?case by simp
  next
    case (Cons d ds)
    then show ?case by (fastforce split: if_splits)
  qed
  from a obtain gt inner where
    i: "dropWhile (\<lambda>c. c \<noteq> CHR ''>'') (drop 5 s) = gt # inner" "before_close inner = Some (g, rest)"
    by (auto simp: code_at_def split: if_splits list.splits)
  have "length (gt # inner) \<le> length (drop 5 s)"
    using i(1) by (metis length_dropWhile_le)
  then have "length inner < length s" by simp
  with bc[OF i(2)] show "(rest, s) \<in> measure length" by simp
next
  fix s :: string and c cs
  assume "s = c # cs"
  then show "(cs, s) \<in> measure length" by simp
qed

declare code_regions.simps [simp del]

subsection \<open>Values, errors and the outside world\<close>

text \<open>JavaScript values as they are put in request bodies and come back in responses.\<close>

datatype json =
    JUndefined
  | JNull
  | JBool bool
  | JNumber int
  | JString string
  | JArray "json list"
  | JObject "(string \<times> json) list"

text \<open>
  What the code can throw: \<open>new Error(message)\<close>, the error of the transport client on a
  response that is not 2xx (with its status), a failed schema \<open>parse\<close> (with the messages
  of its issues), a failed \<open>fetch\<close>.
\<close>

datatype error =
    Error string
  | HttpError nat
  | ZodError "string list"
  | FetchError

text \<open>The arguments of \<open>githubRequest(url, {method, body})\<close>; the read calls pass the URL
  alone.\<close>

record request =
  rq_url :: string
  rq_method :: "string option"
  rq_body :: "json option"

datatype call = Request request | Fetch string

text \<open>The parsed responses, with the fields this file reads: \<open>ref.object.sha\<close>,
  \<open>tree.sha\<close>, \<open>commit.sha\<close>, and \<open>sha\<close> and \<open>content\<close> of a file.\<close>

record GitHubReference =
  ref_name :: string
  object_sha :: string

record GitHubTree =
  tree_sha :: string

record GitHubCommit =
  commit_sha :: string

record GitHubFileContent =
  fc_sha :: string
  fc_content :: string
  fc_other :: "(string \<times> json) list"

text \<open>\<open>GitHubContentSchema\<close> gives a file or an array, the listing of a directory.\<close>

datatype GitHubContent = File GitHubFileContent | Directory "json list"

record FileOperation =
  fo_path :: string
  fo_content :: string

text \<open>
  The collaborators this file imports or finds in the runtime, as parameters:
  \<open>githubRequest\<close> of \<open>common/utils.js\<close> (returns the parsed JSON or throws), \<open>fetch\<close>
  followed by \<open>response.text()\<close>, the schemas of \<open>common/types.js\<close> (\<open>parse\<close> returns the
  value or throws), and Node's \<open>Buffer\<close> conversions
  \<open>Buffer.from(s).toString("base64")\<close> and \<open>Buffer.from(s, "base64").toString("utf8")\<close>.
  The remote side has a state \<open>'w\<close> that every call may change.
\<close>

record 'w env =
  transport :: "'w \<Rightarrow> request \<Rightarrow> (error + json) \<times> 'w"
  fetch_text :: "'w \<Rightarrow> string \<Rightarrow> (error + string) \<times> 'w"
  GitHubContentSchema :: "json \<Rightarrow> error + GitHubContent"
  GitHubTreeSchema :: "json \<Rightarrow> error + GitHubTree"
  GitHubCommitSchema :: "json \<Rightarrow> error + GitHubCommit"
  GitHubReferenceSchema :: "json \<Rightarrow> error + GitHubReference"
  GitHubCreateUpdateFileResponseSchema :: "json \<Rightarrow> error + json"
  to_base64 :: "string \<Rightarrow> string"
  from_base64 :: "string \<Rightarrow> string"

text \<open>The state of a run: the remote side, the calls issued so far in their order, and
  the lines written with \<open>console.error\<close>.\<close>

record 'w st =
  world :: 'w
  calls :: "call list"
  console :: "string list"

type_synonym ('w, 'a) io = "'w st \<Rightarrow> (error + 'a) \<times> 'w st"

definition return_value :: "'a \<Rightarrow> ('w, 'a) io" where
  "return_value x s = (Inr x, s)"

definition throw :: "error \<Rightarrow> ('w, 'a) io" where
  "throw e s = (Inl e, s)"

text \<open>\<open>const x = await m; f x\<close>: a rejected \<open>m\<close> ends the function with its error.\<close>

definition await :: "('w, 'a) io \<Rightarrow> ('a \<Rightarrow> ('w, 'b) io) \<Rightarrow> ('w, 'b) io" where
  "await m f s = (case m s of (Inl e, s') \<Rightarrow> (Inl e, s') | (Inr x, s') \<Rightarrow> f x s')"

text \<open>\<open>try { m } catch (error) { h error }\<close>.\<close>

definition try_catch :: "('w, 'a) io \<Rightarrow> (error \<Rightarrow> ('w, 'a) io) \<Rightarrow> ('w, 'a) io" where
  "try_catch m h s = (case m s of (Inl e, s') \<Rightarrow> h e s' | (Inr x, s') \<Rightarrow> (Inr x, s'))"

definition githubRequest :: "'w env \<Rightarrow> request \<Rightarrow> ('w, json) io" where
  "githubRequest env rq s =
     (case transport env (world s) rq of
        (r, w) \<Rightarrow> (r, s\<lparr>world := w, calls := calls s @ [Request rq]\<rparr>))"

definition fetch :: "'w env \<Rightarrow> string \<Rightarrow> ('w, string) io" where
  "fetch env u s =
     (case fetch_text env (world s) u of
        (r, w) \<Rightarrow> (r, s\<lparr>world := w, calls := calls s @ [Fetch u]\<rparr>))"

definition parse :: "(json \<Rightarrow> error + 'a) \<Rightarrow> json \<Rightarrow> ('w, 'a) io" where
  "parse schema j s = (schema j, s)"

definition console_error :: "string \<Rightarrow> ('w, unit) io" where
  "console_error msg s = (Inr (), s\<lparr>console := console s @ [msg]\<rparr>)"

text \<open>Truthiness of an optional string: \<open>undefined\<close> and the empty string are falsy.\<close>

fun truthy :: "string option \<Rightarrow> bool" where
  "truthy None = False"
| "truthy (Some x) = (x \<noteq> [])"


subsection \<open>CreateOrUpdateFileSchema\<close>

text \<open>
  The two refinements of the input schema of \<open>createOrUpdateFile\<close> (lines 28 to 43), on
  the two fields they read. Each refinement that does not hold adds its message;
  \<open>parse\<close> throws when there is one.
\<close>

definition CreateOrUpdateFileSchema_refine :: "string option \<Rightarrow> string option \<Rightarrow> error + unit" where
  "CreateOrUpdateFileSchema_refine content published_artifact_url =
     (let issues =
            (if content \<noteq> None \<or> published_artifact_url \<noteq> None then []
             else [''Either 'content' or 'published_artifact_url' must be provided''])
          @ (if \<not> (content \<noteq> None \<and> published_artifact_url \<noteq> None) then []
             else [''Only one of 'content' or 'published_artifact_url' can be provided''])
      in if issues = [] then Inr () else Inl (ZodError issues))"

subsection \<open>getFileContents\<close>

definition getFileContents ::
  "'w env \<Rightarrow> string \<Rightarrow> string \<Rightarrow> string \<Rightarrow> string option \<Rightarrow> ('w, GitHubContent) io" where
  "getFileContents env owner repo path branch =
     await (githubRequest env
              \<lparr>rq_url = ''https://api.github.com/repos/'' @ owner @ ''/'' @ repo @ ''/contents/'' @ path
                         @ (case branch of
                              None \<Rightarrow> []
                            | Some b \<Rightarrow> (if b \<noteq> [] then ''?ref='' @ b else [])),
               rq_method = None, rq_body = None\<rparr>)
       (\<lambda>response.
     await (parse (GitHubContentSchema env) response)
       (\<lambda>data.
     return_value
       (case data of
          File f \<Rightarrow>
            (if fc_content f \<noteq> []
             then File (f\<lparr>fc_content := from_base64 env (fc_content f)\<rparr>)
             else File f)
        | Directory entries \<Rightarrow> Directory entries)))"

subsection \<open>createOrUpdateFile\<close>

text \<open>Lines 134 to 153: where the content of the file comes from. The two parameters are
  declared \<open>string\<close> and compared with \<open>undefined\<close>, so they are optional here.\<close>

definition resolveFileContent ::
  "'w env \<Rightarrow> string option \<Rightarrow> string option \<Rightarrow> ('w, string) io" where
  "resolveFileContent env content published_artifact_url =
     (case content of
        Some c \<Rightarrow> return_value c
      | None \<Rightarrow>
          (case published_artifact_url of
             Some u \<Rightarrow>
               await (fetch env u)
                 (\<lambda>html.
                    case match_code html of
                      None \<Rightarrow>
                        throw (Error ''Could not find a singular <code> block in the published artifact'')
                    | Some g \<Rightarrow> return_value (decodeHTMLEntities g))
           | None \<Rightarrow>
               throw (Error ''Either 'content' or 'published_artifact_url' must be provided'')))"

text \<open>Lines 156 to 166: \<open>currentSha\<close>. The file is read when \<open>sha\<close> is falsy; whatever the
  read throws is caught and a note is written.\<close>

definition resolveCurrentSha ::
  "'w env \<Rightarrow> string \<Rightarrow> string \<Rightarrow> string \<Rightarrow> string \<Rightarrow> string option \<Rightarrow> ('w, string option) io" where
  "resolveCurrentSha env owner repo path branch sha =
     (if \<not> truthy sha then
        try_catch
          (await (getFileContents env owner repo path (Some branch))
             (\<lambda>existingFile.
                case existingFile of
                  File f \<Rightarrow> return_value (Some (fc_sha f))
                | Directory entries \<Rightarrow> return_value sha))
          (\<lambda>error.
             await (console_error ''Note: File does not exist in branch, will create new file'')
               (\<lambda>u. return_value sha))
      else return_value sha)"

definition createOrUpdateFile ::
  "'w env \<Rightarrow> string \<Rightarrow> string \<Rightarrow> string \<Rightarrow> string option \<Rightarrow> string option \<Rightarrow> string \<Rightarrow> string
     \<Rightarrow> string option \<Rightarrow> ('w, json) io" where
  "createOrUpdateFile env owner repo path content published_artifact_url message branch sha =
     await (resolveFileContent env content published_artifact_url)
       (\<lambda>fileContent.
     await (resolveCurrentSha env owner repo path branch sha)
       (\<lambda>currentSha.
     await (githubRequest env
              \<lparr>rq_url = ''https://api.github.com/repos/'' @ owner @ ''/'' @ repo @ ''/contents/'' @ path,
               rq_method = Some ''PUT'',
               rq_body = Some (JObject
                  ([(''message'', JString message),
                    (''content'', JString (to_base64 env fileContent)),
                    (''branch'', JString branch)]
                   @ (case currentSha of
                        None \<Rightarrow> []
                      | Some x \<Rightarrow> (if x \<noteq> [] then [(''sha'', JString x)] else []))))\<rparr>)
       (\<lambda>response.
     parse (GitHubCreateUpdateFileResponseSchema env) response)))"

subsection \<open>createTree, createCommit, updateReference, pushFiles\<close>

definition createTree ::
  "'w env \<Rightarrow> string \<Rightarrow> string \<Rightarrow> FileOperation list \<Rightarrow> string option \<Rightarrow> ('w, GitHubTree) io" where
  "createTree env owner repo files baseTree =
     await (githubRequest env
              \<lparr>rq_url = ''https://api.github.com/repos/'' @ owner @ ''/'' @ repo @ ''/git/trees'',
               rq_method = Some ''POST'',
               rq_body = Some (JObject
                  [(''tree'', JArray (map (\<lambda>file. JObject
                       [(''path'', JString (fo_path file)),
                        (''mode'', JString ''100644''),
                        (''type'', JString ''blob''),
                        (''content'', JString (fo_content file))]) files)),
                   (''base_tree'', (case baseTree of None \<Rightarrow> JUndefined | Some b \<Rightarrow> JString b))])\<rparr>)
       (\<lambda>response. parse (GitHubTreeSchema env) response)"

definition createCommit ::
  "'w env \<Rightarrow> string \<Rightarrow> string \<Rightarrow> string \<Rightarrow> string \<Rightarrow> string list \<Rightarrow> ('w, GitHubCommit) io" where
  "createCommit env owner repo message tree parents =
     await (githubRequest env
              \<lparr>rq_url = ''https://api.github.com/repos/'' @ owner @ ''/'' @ repo @ ''/git/commits'',
               rq_method = Some ''POST'',
               rq_body = Some (JObject
                  [(''message'', JString message),
                   (''tree'', JString tree),
                   (''parents'', JArray (map JString parents))])\<rparr>)
       (\<lambda>response. parse (GitHubCommitSchema env) response)"

definition updateReference ::
  "'w env \<Rightarrow> string \<Rightarrow> string \<Rightarrow> string \<Rightarrow> string \<Rightarrow> ('w, GitHubReference) io" where
  "updateReference env owner repo ref sha =
     await (githubRequest env
              \<lparr>rq_url = ''https://api.github.com/repos/'' @ owner @ ''/'' @ repo @ ''/git/refs/'' @ ref,
               rq_method = Some ''PATCH'',
               rq_body = Some (JObject [(''sha'', JString sha), (''force'', JBool True)])\<rparr>)
       (\<lambda>response. parse (GitHubReferenceSchema env) response)"

definition pushFiles ::
  "'w env \<Rightarrow> string \<Rightarrow> string \<Rightarrow> string \<Rightarrow> FileOperation list \<Rightarrow> string \<Rightarrow> ('w, GitHubReference) io" where
  "pushFiles env owner repo branch files message =
     await (githubRequest env
              \<lparr>rq_url = ''https://api.github.com/repos/'' @ owner @ ''/'' @ repo @ ''/git/refs/heads/'' @ branch,
               rq_method = None, rq_body = None\<rparr>)
       (\<lambda>refResponse.
     await (parse (GitHubReferenceSchema env) refResponse)
       (\<lambda>ref.
     await (createTree env owner repo files (Some (object_sha ref)))
       (\<lambda>tree.
     await (createCommit env owner repo message (tree_sha tree) [object_sha ref])
       (\<lambda>commit.
     updateReference env owner repo (''heads/'' @ branch) (commit_sha commit)))))"


subsection \<open>A scripted remote side\<close>

text \<open>
  An environment for running the operations on concrete inputs. Its state is a script:
  the replies the transport client still has to give, in order, and the replies of
  \<open>fetch\<close>. Each call takes the next reply; a call beyond the script fails.
\<close>

type_synonym script = "(error + json) list \<times> (error + string) list"

definition scripted_transport :: "script \<Rightarrow> request \<Rightarrow> (error + json) \<times> script" where
  "scripted_transport w rq =
     (case fst w of
        [] \<Rightarrow> (Inl (HttpError 500), w)
      | r # rs \<Rightarrow> (r, (rs, snd w)))"

definition scripted_fetch :: "script \<Rightarrow> string \<Rightarrow> (error + string) \<times> script" where
  "scripted_fetch w u =
     (case snd w of
        [] \<Rightarrow> (Inl FetchError, w)
      | r # rs \<Rightarrow> (r, (fst w, rs)))"

text \<open>Schemas that read the fields the operations use.\<close>

fun field :: "string \<Rightarrow> json \<Rightarrow> json option" where
  "field k (JObject kvs) = map_of kvs k"
| "field k j = None"

definition read_sha :: "json \<Rightarrow> string option" where
  "read_sha j = (case field ''sha'' j of Some (JString x) \<Rightarrow> Some x | _ \<Rightarrow> None)"

definition read_reference :: "json \<Rightarrow> error + GitHubReference" where
  "read_reference j =
     (case (field ''ref'' j, Option.bind (field ''object'' j) read_sha) of
        (Some (JString r), Some x) \<Rightarrow> Inr \<lparr>ref_name = r, object_sha = x\<rparr>
      | _ \<Rightarrow> Inl (ZodError [''Invalid reference'']))"

definition read_tree :: "json \<Rightarrow> error + GitHubTree" where
  "read_tree j =
     (case read_sha j of
        Some x \<Rightarrow> Inr \<lparr>tree_sha = x\<rparr>
      | None \<Rightarrow> Inl (ZodError [''Invalid tree'']))"

definition read_commit :: "json \<Rightarrow> error + GitHubCommit" where
  "read_commit j =
     (case read_sha j of
        Some x \<Rightarrow> Inr \<lparr>commit_sha = x\<rparr>
      | None \<Rightarrow> Inl (ZodError [''Invalid commit'']))"

definition read_content :: "json \<Rightarrow> error + GitHubContent" where
  "read_content j =
     (case j of
        JArray entries \<Rightarrow> Inr (Directory entries)
      | JObject kvs \<Rightarrow>
          (case (read_sha j, field ''content'' j) of
             (Some x, Some (JString c)) \<Rightarrow>
               Inr (File \<lparr>fc_sha = x, fc_content = c,
                          fc_other = filter (\<lambda>kv. fst kv \<noteq> ''sha'' \<and> fst kv \<noteq> ''content'') kvs\<rparr>)
           | _ \<Rightarrow> Inl (ZodError [''Invalid content'']))
      | _ \<Rightarrow> Inl (ZodError [''Invalid content'']))"

definition read_write_response :: "json \<Rightarrow> error + json" where
  "read_write_response j =
     (case field ''commit'' j of
        Some c \<Rightarrow> Inr j
      | None \<Rightarrow> Inl (ZodError [''Invalid response'']))"

text \<open>Base64 with the standard alphabet and padding, on bytes. The decoder skips every
  character outside the alphabet, as the line breaks in a remote file content.\<close>

definition base64_alphabet :: string where
  "base64_alphabet = ''ABCDEFGHIJKLMNOPQRSTUVWXYZabcdefghijklmnopqrstuvwxyz0123456789+/''"

definition base64_digit :: "nat \<Rightarrow> char" where
  "base64_digit n = base64_alphabet ! n"

fun base64_encode :: "nat list \<Rightarrow> string" where
  "base64_encode (a # b # c # rest) =
     [base64_digit (a div 4), base64_digit ((a mod 4) * 16 + b div 16),
      base64_digit ((b mod 16) * 4 + c div 64), base64_digit (c mod 64)] @ base64_encode rest"
| "base64_encode [a, b] =
     [base64_digit (a div 4), base64_digit ((a mod 4) * 16 + b div 16),
      base64_digit ((b mod 16) * 4), CHR ''='']"
| "base64_encode [a] =
     [base64_digit (a div 4), base64_digit ((a mod 4) * 16), CHR ''='', CHR ''='']"
| "base64_encode [] = []"

fun index_of :: "char \<Rightarrow> string \<Rightarrow> nat option" where
  "index_of c [] = None"
| "index_of c (d # ds) = (if c = d then Some 0 else map_option Suc (index_of c ds))"

fun base64_decode :: "nat list \<Rightarrow> nat list" where
  "base64_decode (a # b # c # d # rest) =
     [a * 4 + b div 16, (b mod 16) * 16 + c div 4, (c mod 4) * 64 + d] @ base64_decode rest"
| "base64_decode [a, b, c] = [a * 4 + b div 16, (b mod 16) * 16 + c div 4]"
| "base64_decode [a, b] = [a * 4 + b div 16]"
| "base64_decode v = []"

definition scripted_env :: "script env" where
  "scripted_env =
     \<lparr>transport = scripted_transport,
      fetch_text = scripted_fetch,
      GitHubContentSchema = read_content,
      GitHubTreeSchema = read_tree,
      GitHubCommitSchema = read_commit,
      GitHubReferenceSchema = read_reference,
      GitHubCreateUpdateFileResponseSchema = read_write_response,
      to_base64 = (\<lambda>x. base64_encode (map of_char x)),
      from_base64 = (\<lambda>x. map char_of (base64_decode (List.map_filter (\<lambda>c. index_of c base64_alphabet) x)))\<rparr>"

text \<open>The start of a run against a script.\<close>

definition start :: "script \<Rightarrow> script st" where
  "start w = \<lparr>world = w, calls = [], console = []\<rparr>"

text \<open>Replies of the remote side: a reference to a commit, an object with its \<open>sha\<close>
  (a tree or a commit), a file with its content in base64, the result of a write.\<close>

definition reference_json :: "string \<Rightarrow> string \<Rightarrow> json" where
  "reference_json r x = JObject [(''ref'', JString r), (''object'', JObject [(''sha'', JString x)])]"

definition sha_json :: "string \<Rightarrow> json" where
  "sha_json x = JObject [(''sha'', JString x)]"

definition file_json :: "string \<Rightarrow> string \<Rightarrow> json" where
  "file_json x c = JObject [(''sha'', JString x), (''content'', JString c)]"

definition written_json :: "string \<Rightarrow> json" where
  "written_json x = JObject [(''content'', JNull), (''commit'', JObject [(''sha'', JString x)])]"





section \<open>Properties\<close>

subsection \<open>The entity decoder\<close>

lemma decode_Nil: "decodeHTMLEntities [] = []"
  by (simp add: decodeHTMLEntities.simps)

lemma decode_Cons:
  "decodeHTMLEntities (c # cs) =
     (case entity_at (c # cs) of
        Some (m, rest) \<Rightarrow> replacer m @ decodeHTMLEntities rest
      | None \<Rightarrow> c # decodeHTMLEntities cs)"
  by (subst decodeHTMLEntities.simps) simp

lemma not_entity_char_amp: "\<not> entity_char CHR ''&''"
  by (simp add: entity_char_def)

lemma not_entity_char_semi: "\<not> entity_char CHR '';''"
  by (simp add: entity_char_def)

lemma entity_at_token:
  assumes "name \<noteq> []" and "\<forall>c \<in> set name. entity_char c"
  shows "entity_at (CHR ''&'' # name @ CHR '';'' # post) = Some (CHR ''&'' # name @ '';'', post)"
proof -
  have "dropWhile entity_char (name @ CHR '';'' # post) = CHR '';'' # post"
    using assms(2) by (simp add: dropWhile_append3 not_entity_char_semi)
  moreover have "takeWhile entity_char (name @ CHR '';'' # post) = name"
    using assms(2) by (simp add: takeWhile_tail not_entity_char_semi)
  ultimately show ?thesis using assms(1) by (simp add: entity_at_def)
qed

lemma entity_at_Some:
  assumes "entity_at s = Some (m, rest)"
  shows "\<exists>name. name \<noteq> [] \<and> (\<forall>c \<in> set name. entity_char c) \<and> m = CHR ''&'' # name @ '';'' \<and> s = m @ rest"
proof -
  from assms obtain c cs where s: "s = c # cs" by (cases s) (auto simp: entity_at_def)
  from assms s have c: "c = CHR ''&''" by (auto simp: entity_at_def split: if_splits)
  from assms s c obtain d where d: "dropWhile entity_char cs = d # rest" "d = CHR '';''"
      "takeWhile entity_char cs \<noteq> []" "m = c # takeWhile entity_char cs @ [d]"
    by (auto simp: entity_at_def split: if_splits list.splits)
  have "cs = takeWhile entity_char cs @ dropWhile entity_char cs" by simp
  then have "cs = takeWhile entity_char cs @ d # rest" using d(1) by simp
  moreover have "\<forall>x \<in> set (takeWhile entity_char cs). entity_char x"
    by (auto dest: set_takeWhileD)
  ultimately show ?thesis using s c d by (intro exI[of _ "takeWhile entity_char cs"]) auto
qed

lemma decode_split_amp:
  "decodeHTMLEntities (pre @ CHR ''&'' # rest) = decodeHTMLEntities pre @ decodeHTMLEntities (CHR ''&'' # rest)"
proof (induction pre rule: length_induct)
  case (1 pre)
  show ?case
  proof (cases pre)
    case Nil
    then show ?thesis by (simp add: decode_Nil)
  next
    case (Cons c cs)
    show ?thesis
    proof (cases "entity_at (c # cs)")
      case None
      have "entity_at (c # cs @ CHR ''&'' # rest) = None"
      proof (cases "c = CHR ''&''")
        case False
        then show ?thesis by (simp add: entity_at_def)
      next
        case True
        show ?thesis
        proof (cases "\<forall>x \<in> set cs. entity_char x")
          case True
          then have "dropWhile entity_char (cs @ CHR ''&'' # rest) = CHR ''&'' # rest"
            by (simp add: dropWhile_append3 not_entity_char_amp)
          then show ?thesis by (simp add: entity_at_def)
        next
          case False
          then have dw: "dropWhile entity_char (cs @ CHR ''&'' # rest) = dropWhile entity_char cs @ CHR ''&'' # rest"
            and tw: "takeWhile entity_char (cs @ CHR ''&'' # rest) = takeWhile entity_char cs"
            by (auto simp: dropWhile_append1 takeWhile_append1)
          from False have ne: "dropWhile entity_char cs \<noteq> []" by (simp add: dropWhile_eq_Nil_conv)
          then obtain d r where dr: "dropWhile entity_char cs = d # r" by (cases "dropWhile entity_char cs") auto
          with None True show ?thesis
            by (auto simp: entity_at_def dw tw split: if_splits)
        qed
      qed
      moreover have "decodeHTMLEntities (cs @ CHR ''&'' # rest) = decodeHTMLEntities cs @ decodeHTMLEntities (CHR ''&'' # rest)"
        using 1 Cons by simp
      ultimately show ?thesis using None Cons by (simp add: decode_Cons)
    next
      case (Some a)
      obtain m r where a: "a = (m, r)" by (cases a)
      from entity_at_Some[OF Some[unfolded a]] obtain name where
        nm: "name \<noteq> []" "\<forall>c \<in> set name. entity_char c" "m = CHR ''&'' # name @ '';''" "c # cs = m @ r"
        by blast
      have "c # cs @ CHR ''&'' # rest = CHR ''&'' # name @ CHR '';'' # (r @ CHR ''&'' # rest)"
        using nm by simp
      then have "entity_at (c # cs @ CHR ''&'' # rest) = Some (m, r @ CHR ''&'' # rest)"
        using entity_at_token[OF nm(1,2)] nm(3) by simp
      moreover have "length pre = length m + length r" using nm(4) Cons by (metis length_append)
      then have "length r < length pre" using nm(3) by simp
      then have "decodeHTMLEntities (r @ CHR ''&'' # rest) = decodeHTMLEntities r @ decodeHTMLEntities (CHR ''&'' # rest)"
        using 1 by simp
      ultimately show ?thesis using Some a Cons by (simp add: decode_Cons)
    qed
  qed
qed

lemma decode_token:
  assumes "name \<noteq> []" and "\<forall>c \<in> set name. entity_char c"
  shows "decodeHTMLEntities (pre @ CHR ''&'' # name @ CHR '';'' # post)
           = decodeHTMLEntities pre @ replacer (CHR ''&'' # name @ '';'') @ decodeHTMLEntities post"
  by (simp add: decode_split_amp decode_Cons entity_at_token[OF assms])

lemma entities_shape:
  assumes "(e, r) \<in> set entities"
  shows "\<exists>name. name \<noteq> [] \<and> (\<forall>c \<in> set name. entity_char c) \<and> e = CHR ''&'' # name @ '';'' \<and> replacer e = r"
proof -
  from assms have
    "e = ''&quot;'' \<and> r = [CHR 0x22] \<or> e = ''&amp;'' \<and> r = ''&'' \<or>
     e = ''&apos;'' \<and> r = [CHR 0x27] \<or> e = ''&lt;'' \<and> r = ''<'' \<or>
     e = ''&gt;'' \<and> r = ''>'' \<or> e = ''&#x27;'' \<and> r = [CHR 0x27]"
    unfolding entities_def by simp
  then show ?thesis
  proof (elim disjE conjE)
    assume "e = ''&quot;''" "r = [CHR 0x22]"
    then show ?thesis by (intro exI[of _ "''quot''"]) (simp add: entity_char_def replacer_def entities_def)
  next
    assume "e = ''&amp;''" "r = ''&''"
    then show ?thesis by (intro exI[of _ "''amp''"]) (simp add: entity_char_def replacer_def entities_def)
  next
    assume "e = ''&apos;''" "r = [CHR 0x27]"
    then show ?thesis by (intro exI[of _ "''apos''"]) (simp add: entity_char_def replacer_def entities_def)
  next
    assume "e = ''&lt;''" "r = ''<''"
    then show ?thesis by (intro exI[of _ "''lt''"]) (simp add: entity_char_def replacer_def entities_def)
  next
    assume "e = ''&gt;''" "r = ''>''"
    then show ?thesis by (intro exI[of _ "''gt''"]) (simp add: entity_char_def replacer_def entities_def)
  next
    assume "e = ''&#x27;''" "r = [CHR 0x27]"
    then show ?thesis by (intro exI[of _ "''#x27''"]) (simp add: entity_char_def replacer_def entities_def)
  qed
qed

lemma decode_entity:
  assumes "(e, r) \<in> set entities"
  shows "decodeHTMLEntities (pre @ e @ post) = decodeHTMLEntities pre @ r @ decodeHTMLEntities post"
proof -
  from entities_shape[OF assms] obtain name where
    nm: "name \<noteq> []" "\<forall>c \<in> set name. entity_char c" "e = CHR ''&'' # name @ '';''" "replacer e = r"
    by blast
  show ?thesis using decode_token[OF nm(1,2), of pre post] nm(3,4) by simp
qed

lemma replacer_unknown: "m \<notin> fst ` set entities \<Longrightarrow> replacer m = m"
proof -
  assume "m \<notin> fst ` set entities"
  then have "map_of entities m = None" by (simp add: map_of_eq_None_iff)
  then show ?thesis by (simp add: replacer_def)
qed

lemma decode_plain:
  "\<forall>e \<in> fst ` set entities. \<not> sublist e s \<Longrightarrow> decodeHTMLEntities s = s"
proof (induction s rule: length_induct)
  case (1 s)
  show ?case
  proof (cases s)
    case Nil
    then show ?thesis by (simp add: decode_Nil)
  next
    case (Cons c cs)
    show ?thesis
    proof (cases "entity_at (c # cs)")
      case None
      have "\<forall>e \<in> fst ` set entities. \<not> sublist e cs"
        using 1(2) Cons by (auto simp: sublist_Cons_right)
      then have "decodeHTMLEntities cs = cs" using 1(1) Cons by simp
      then show ?thesis using None Cons by (simp add: decode_Cons)
    next
      case (Some a)
      obtain m r where a: "a = (m, r)" by (cases a)
      from entity_at_Some[OF Some[unfolded a]] obtain name where
        nm: "m = CHR ''&'' # name @ '';''" "c # cs = m @ r"
        by blast
      have "sublist m s" using nm(2) Cons by (metis sublist_append_rightI)
      then have "m \<notin> fst ` set entities" using 1(2) by blast
      then have rm: "replacer m = m" by (rule replacer_unknown)
      have "\<forall>e \<in> fst ` set entities. \<not> sublist e r"
        
      proof
        fix e assume e: "e \<in> fst ` set entities"
        have "sublist r s" using nm(2) Cons by (metis sublist_append_leftI)
        then have "sublist e r \<Longrightarrow> sublist e s" by (rule sublist_order.order_trans[rotated])
        then show "\<not> sublist e r" using 1(2) e by blast
      qed
      moreover have "length r < length s" 
      proof -
        have "length s = length m + length r" using nm(2) Cons by (metis length_append)
        moreover have "0 < length m" using nm(1) by simp
        ultimately show ?thesis by simp
      qed
      ultimately have "decodeHTMLEntities r = r" using 1(1) by simp
      moreover have "decodeHTMLEntities (c # cs) = replacer m @ decodeHTMLEntities r"
        using Some a by (simp add: decode_Cons)
      ultimately show ?thesis using Cons rm nm(2) by simp
    qed
  qed
qed

lemma decode_no_amp: "CHR ''&'' \<notin> set t \<Longrightarrow> decodeHTMLEntities t = t"
  by (induction t) (auto simp: decode_Nil decode_Cons entity_at_def)

text \<open>
  C8. The decoder replaces each occurrence of the six entities \<open>&quot;\<close>, \<open>&amp;\<close>,
  \<open>&apos;\<close>, \<open>&lt;\<close>, \<open>&gt;\<close>, \<open>&#x27;\<close> by its character, wherever it stands in
  the text (the text before and the text after are decoded on their own); a sequence
  \<open>&name;\<close> that is not in the table stays as it is; and a text in which none of the six
  entities occurs is returned unchanged.
\<close>

theorem decodeHTMLEntities_entities:
  "((e, r) \<in> {(''&quot;'', [CHR 0x22]), (''&amp;'', ''&''), (''&apos;'', [CHR 0x27]),
               (''&lt;'', ''<''), (''&gt;'', ''>''), (''&#x27;'', [CHR 0x27])}
      \<longrightarrow> decodeHTMLEntities (pre @ e @ post) = decodeHTMLEntities pre @ r @ decodeHTMLEntities post)
   \<and> (name \<noteq> [] \<and> (\<forall>c \<in> set name. entity_char c) \<and> CHR ''&'' # name @ '';'' \<notin> fst ` set entities
      \<longrightarrow> decodeHTMLEntities (pre @ CHR ''&'' # name @ '';'' @ post)
            = decodeHTMLEntities pre @ CHR ''&'' # name @ '';'' @ decodeHTMLEntities post)
   \<and> ((\<forall>x \<in> fst ` set entities. \<not> sublist x s) \<longrightarrow> decodeHTMLEntities s = s)"
proof (intro conjI impI)
  assume "(e, r) \<in> {(''&quot;'', [CHR 0x22]), (''&amp;'', ''&''), (''&apos;'', [CHR 0x27]),
               (''&lt;'', ''<''), (''&gt;'', ''>''), (''&#x27;'', [CHR 0x27])}"
  then have "(e, r) \<in> set entities" unfolding entities_def by simp
  then show "decodeHTMLEntities (pre @ e @ post) = decodeHTMLEntities pre @ r @ decodeHTMLEntities post"
    by (rule decode_entity)
next
  assume a: "name \<noteq> [] \<and> (\<forall>c \<in> set name. entity_char c) \<and> CHR ''&'' # name @ '';'' \<notin> fst ` set entities"
  then have "replacer (CHR ''&'' # name @ '';'') = CHR ''&'' # name @ '';''"
    by (simp add: replacer_unknown)
  with a show "decodeHTMLEntities (pre @ CHR ''&'' # name @ '';'' @ post)
            = decodeHTMLEntities pre @ CHR ''&'' # name @ '';'' @ decodeHTMLEntities post"
    using decode_token[of name pre post] by simp
next
  assume "\<forall>x \<in> fst ` set entities. \<not> sublist x s"
  then show "decodeHTMLEntities s = s" by (rule decode_plain)
qed

theorem decodeHTMLEntities_entities_witness:
  "decodeHTMLEntities ''a &lt; b'' = ''a < b''
   \<and> decodeHTMLEntities ''a &nbsp; b'' = ''a &nbsp; b''
   \<and> decodeHTMLEntities ''a & b; c'' = ''a & b; c''"
proof -
  have 1: "decodeHTMLEntities ''a '' = ''a ''" "decodeHTMLEntities '' b'' = '' b''"
    by (simp_all add: decode_no_amp)
  have 2: "\<forall>c \<in> set ''nbsp''. entity_char c" by (simp add: entity_char_def)
  have 3: "CHR ''&'' # ''nbsp'' @ '';'' \<notin> fst ` set entities" by (simp add: entities_def)
  have 4: "\<forall>x \<in> fst ` set entities. \<not> sublist x ''a & b; c''"
    by (simp add: entities_def sublist_Cons_right)
  show ?thesis
    using decodeHTMLEntities_entities[of "''&lt;''" "''<''" "''a ''" "'' b''" "''nbsp''" "''a & b; c''"] 1 2 3 4
    by simp
qed

subsection \<open>The code block pattern\<close>

text \<open>
  What \<open>code_at\<close>, \<open>match_code\<close> and \<open>code_regions\<close> find: a match is a
  \<open><code\<close>, then characters other than \<open>>\<close>, then \<open>>\<close>, the group, and \<open></code>\<close>; a
  document has a region exactly when it contains such a text; and \<open>match\<close> gives the
  first region.
\<close>

lemma before_close_Some:
  "before_close t = Some (g, r) \<Longrightarrow> t = g @ ''</code>'' @ r"
proof (induction t arbitrary: g)
  case Nil
  then show ?case by simp
next
  case (Cons c cs)
  show ?case
  proof (cases "prefix ''</code>'' (c # cs)")
    case True
    then obtain zs where "c # cs = ''</code>'' @ zs" by (auto simp: prefix_def)
    moreover from this have "drop 7 (c # cs) = zs" by simp
    ultimately show ?thesis using Cons.prems True by simp
  next
    case False
    with Cons.prems obtain g' where "before_close cs = Some (g', r)" "g = c # g'"
      by auto
    with Cons.IH show ?thesis by simp
  qed
qed

lemma before_close_complete:
  "before_close (body @ ''</code>'' @ post) \<noteq> None"
proof (induction body)
  case Nil
  then show ?case by simp
next
  case (Cons c cs)
  then show ?case by auto
qed

lemma code_at_Some:
  assumes "code_at s = Some (g, r)"
  shows "\<exists>attrs. s = ''<code'' @ attrs @ ''>'' @ g @ ''</code>'' @ r \<and> CHR ''>'' \<notin> set attrs"
proof -
  from assms have p: "prefix ''<code'' s" by (auto simp: code_at_def split: if_splits)
  then obtain t where t: "s = ''<code'' @ t" by (auto simp: prefix_def)
  then have d: "drop 5 s = t" by simp
  from assms p d obtain gt inner where
    i: "dropWhile (\<lambda>c. c \<noteq> CHR ''>'') t = gt # inner" "before_close inner = Some (g, r)"
    by (auto simp: code_at_def split: list.splits)
  have gt: "gt = CHR ''>''"
    using hd_dropWhile[of "\<lambda>c. c \<noteq> CHR ''>''" t] i(1) by simp
  have "t = takeWhile (\<lambda>c. c \<noteq> CHR ''>'') t @ dropWhile (\<lambda>c. c \<noteq> CHR ''>'') t" by simp
  then have "t = takeWhile (\<lambda>c. c \<noteq> CHR ''>'') t @ ''>'' @ inner" using i(1) gt by simp
  moreover have "inner = g @ ''</code>'' @ r" using i(2) by (rule before_close_Some)
  moreover have "CHR ''>'' \<notin> set (takeWhile (\<lambda>c. c \<noteq> CHR ''>'') t)"
    by (auto dest: set_takeWhileD)
  ultimately show ?thesis using t
    by (intro exI[of _ "takeWhile (\<lambda>c. c \<noteq> CHR ''>'') t"]) simp
qed

lemma code_at_complete:
  assumes "CHR ''>'' \<notin> set attrs"
  shows "code_at (''<code'' @ attrs @ ''>'' @ body @ ''</code>'' @ post) \<noteq> None"
proof -
  have "dropWhile (\<lambda>c. c \<noteq> CHR ''>'') (attrs @ ''>'' @ body @ ''</code>'' @ post)
          = ''>'' @ body @ ''</code>'' @ post"
    using assms by (auto simp: dropWhile_append3)
  then show ?thesis
    using before_close_complete[of body post] by (simp add: code_at_def)
qed

lemma code_regions_Nil: "code_regions [] = []"
  by (simp add: code_regions.simps)

lemma code_regions_Cons:
  "code_regions (c # cs) =
     (case code_at (c # cs) of
        Some (g, rest) \<Rightarrow> g # code_regions rest
      | None \<Rightarrow> code_regions cs)"
  by (subst code_regions.simps) simp

lemma code_at_Nil: "code_at [] = None"
  by (simp add: code_at_def)

lemma match_code_regions:
  "match_code s = (case code_regions s of [] \<Rightarrow> None | g # gs \<Rightarrow> Some g)"
proof (induction s)
  case Nil
  then show ?case by (simp add: code_regions_Nil code_at_Nil)
next
  case (Cons c cs)
  then show ?case by (simp add: code_regions_Cons split: option.splits)
qed

lemma code_regions_shape:
  "code_regions s \<noteq> [] \<longleftrightarrow>
     (\<exists>pre attrs body post.
        s = pre @ ''<code'' @ attrs @ ''>'' @ body @ ''</code>'' @ post \<and> CHR ''>'' \<notin> set attrs)"
proof
  assume "code_regions s \<noteq> []"
  then show "\<exists>pre attrs body post.
        s = pre @ ''<code'' @ attrs @ ''>'' @ body @ ''</code>'' @ post \<and> CHR ''>'' \<notin> set attrs"
  proof (induction s)
    case Nil
    then show ?case by (simp add: code_regions_Nil)
  next
    case (Cons c cs)
    show ?case
    proof (cases "code_at (c # cs)")
      case None
      with Cons.prems have "code_regions cs \<noteq> []" by (simp add: code_regions_Cons)
      from Cons.IH[OF this] obtain pre attrs body post where
        "cs = pre @ ''<code'' @ attrs @ ''>'' @ body @ ''</code>'' @ post" "CHR ''>'' \<notin> set attrs"
        by blast
      then have "c # cs = (c # pre) @ ''<code'' @ attrs @ ''>'' @ body @ ''</code>'' @ post \<and> CHR ''>'' \<notin> set attrs"
        by simp
      then show ?thesis by blast
    next
      case (Some a)
      obtain g r where "a = (g, r)" by (cases a)
      with Some have "code_at (c # cs) = Some (g, r)" by simp
      from code_at_Some[OF this] obtain attrs where
        "c # cs = ''<code'' @ attrs @ ''>'' @ g @ ''</code>'' @ r" "CHR ''>'' \<notin> set attrs"
        by blast
      then have "c # cs = [] @ ''<code'' @ attrs @ ''>'' @ g @ ''</code>'' @ r \<and> CHR ''>'' \<notin> set attrs"
        by simp
      then show ?thesis by blast
    qed
  qed
next
  assume "\<exists>pre attrs body post.
        s = pre @ ''<code'' @ attrs @ ''>'' @ body @ ''</code>'' @ post \<and> CHR ''>'' \<notin> set attrs"
  then obtain pre attrs body post where
    s: "s = pre @ ''<code'' @ attrs @ ''>'' @ body @ ''</code>'' @ post" and a: "CHR ''>'' \<notin> set attrs"
    by blast
  show "code_regions s \<noteq> []"
    unfolding s
  proof (induction pre)
    case Nil
    from code_at_complete[OF a, of body post] obtain g r where
      "code_at (''<code'' @ attrs @ ''>'' @ body @ ''</code>'' @ post) = Some (g, r)"
      by auto
    then show ?case by (simp add: code_regions_Cons)
  next
    case (Cons c pre)
    then show ?case by (simp add: code_regions_Cons split: option.splits)
  qed
qed

lemmas regex_eval = code_regions_Nil code_regions_Cons code_at_def decode_Nil decode_Cons
  entity_at_def entity_char_def replacer_def entities_def

subsection \<open>Running the operations\<close>

lemma await_parse_calls:
  "calls (snd (await (githubRequest env rq) (\<lambda>response. parse schema response) s)) = calls s @ [Request rq]"
  by (simp add: await_def githubRequest_def parse_def split: prod.splits sum.splits)

lemma getFileContents_calls:
  "calls (snd (getFileContents env owner repo path branch s)) =
     calls s @
     [Request \<lparr>rq_url = ''https://api.github.com/repos/'' @ owner @ ''/'' @ repo @ ''/contents/'' @ path
                         @ (case branch of None \<Rightarrow> [] | Some b \<Rightarrow> (if b \<noteq> [] then ''?ref='' @ b else [])),
               rq_method = None, rq_body = None\<rparr>]"
  by (simp add: getFileContents_def await_def githubRequest_def parse_def return_value_def
        split: prod.splits sum.splits)

lemma resolveCurrentSha_cases:
  assumes "getFileContents env owner repo path (Some branch) s = (r, s')"
  shows "resolveCurrentSha env owner repo path branch sha s =
     (if truthy sha then (Inr sha, s)
      else (case r of
              Inr (File f) \<Rightarrow> (Inr (Some (fc_sha f)), s')
            | Inr (Directory entries) \<Rightarrow> (Inr sha, s')
            | Inl e \<Rightarrow>
                (Inr sha, s'\<lparr>console := console s' @
                   [''Note: File does not exist in branch, will create new file'']\<rparr>)))"
  using assms
  by (simp add: resolveCurrentSha_def try_catch_def await_def return_value_def console_error_def
        split: sum.splits GitHubContent.splits)

lemma resolveCurrentSha_never_throws:
  "\<exists>currentSha s'. resolveCurrentSha env owner repo path branch sha s = (Inr currentSha, s')"
proof -
  obtain r s' where g: "getFileContents env owner repo path (Some branch) s = (r, s')"
    by (cases "getFileContents env owner repo path (Some branch) s")
  show ?thesis
    unfolding resolveCurrentSha_cases[OF g]
    by (simp split: sum.splits GitHubContent.splits)
qed

lemma createOrUpdateFile_run:
  assumes "resolveFileContent env content published_artifact_url s = (Inr fileContent, s1)"
    and "resolveCurrentSha env owner repo path branch sha s1 = (Inr currentSha, s2)"
  shows "createOrUpdateFile env owner repo path content published_artifact_url message branch sha s =
     await (githubRequest env
              \<lparr>rq_url = ''https://api.github.com/repos/'' @ owner @ ''/'' @ repo @ ''/contents/'' @ path,
               rq_method = Some ''PUT'',
               rq_body = Some (JObject
                  ([(''message'', JString message),
                    (''content'', JString (to_base64 env fileContent)),
                    (''branch'', JString branch)]
                   @ (case currentSha of
                        None \<Rightarrow> []
                      | Some x \<Rightarrow> (if x \<noteq> [] then [(''sha'', JString x)] else []))))\<rparr>)
       (\<lambda>response. parse (GitHubCreateUpdateFileResponseSchema env) response) s2"
  using assms by (simp add: createOrUpdateFile_def await_def)



lemmas scripted_simps = scripted_env_def scripted_transport_def scripted_fetch_def start_def
  read_reference_def read_tree_def read_commit_def read_sha_def read_content_def read_write_response_def
  reference_json_def sha_json_def file_json_def written_json_def

lemmas run_simps = getFileContents_def resolveFileContent_def resolveCurrentSha_def
  createOrUpdateFile_def await_def try_catch_def githubRequest_def fetch_def parse_def
  return_value_def throw_def console_error_def

subsection \<open>getFileContents\<close>




subsection \<open>createTree\<close>

text \<open>
  C7. \<open>createTree\<close> issues one call, a \<open>POST\<close> to \<open>git/trees\<close>, whose body is
  \<open>{tree, base_tree}\<close>: the tree array has, for each edit in order, the entry
  \<open>{path, mode: "100644", type: "blob", content}\<close> with the content of the edit inline,
  and \<open>base_tree\<close> is the base reference when there is one (\<open>undefined\<close> otherwise).
\<close>

theorem createTree_request:
  "calls (snd (createTree env owner repo files baseTree s)) =
     calls s @
     [Request
        \<lparr>rq_url = ''https://api.github.com/repos/'' @ owner @ ''/'' @ repo @ ''/git/trees'',
         rq_method = Some ''POST'',
         rq_body = Some (JObject
           [(''tree'', JArray (map (\<lambda>edit. JObject
                [(''path'', JString (fo_path edit)),
                 (''mode'', JString ''100644''),
                 (''type'', JString ''blob''),
                 (''content'', JString (fo_content edit))]) files)),
            (''base_tree'', (case baseTree of None \<Rightarrow> JUndefined | Some b \<Rightarrow> JString b))])\<rparr>]"
  unfolding createTree_def by (rule await_parse_calls)

subsection \<open>pushFiles\<close>

text \<open>
  C1, as the code has it. A push against a branch whose head is \<open>C0\<close>, on a remote side
  that answers the four calls, issues exactly four calls in this order: the read of
  \<open>git/refs/heads/<branch>\<close>, which returns \<open>C0\<close>; the creation of the tree with
  \<open>base_tree = C0\<close> and one blob entry for each edit; the creation of the commit with the
  SHA of the new tree and \<open>parents = [C0]\<close>; the update of \<open>heads/<branch>\<close> with
  \<open>force = true\<close> and the SHA of the new commit. The reference returned is the parsed
  answer to the update, whatever SHA it carries: the function does not compare it with
  the SHA of the new commit.
\<close>

theorem pushFiles_sequence:
  fixes env :: "'w env" and s :: "'w st"
  defines "api \<equiv> ''https://api.github.com/repos/''"
  assumes head: "transport env (world s)
            \<lparr>rq_url = api @ owner @ ''/'' @ repo @ ''/git/refs/heads/'' @ branch,
             rq_method = None, rq_body = None\<rparr> = (Inr j0, w1)"
      "GitHubReferenceSchema env j0 = Inr head" "object_sha head = C0"
    and tree: "transport env w1
            \<lparr>rq_url = api @ owner @ ''/'' @ repo @ ''/git/trees'',
             rq_method = Some ''POST'',
             rq_body = Some (JObject
               [(''tree'', JArray (map (\<lambda>edit. JObject
                    [(''path'', JString (fo_path edit)), (''mode'', JString ''100644''),
                     (''type'', JString ''blob''), (''content'', JString (fo_content edit))]) edits)),
                (''base_tree'', JString C0)])\<rparr> = (Inr j1, w2)"
      "GitHubTreeSchema env j1 = Inr tree"
    and commit: "transport env w2
            \<lparr>rq_url = api @ owner @ ''/'' @ repo @ ''/git/commits'',
             rq_method = Some ''POST'',
             rq_body = Some (JObject
               [(''message'', JString message), (''tree'', JString (tree_sha tree)),
                (''parents'', JArray [JString C0])])\<rparr> = (Inr j2, w3)"
      "GitHubCommitSchema env j2 = Inr commit"
    and update: "transport env w3
            \<lparr>rq_url = api @ owner @ ''/'' @ repo @ ''/git/refs/'' @ ''heads/'' @ branch,
             rq_method = Some ''PATCH'',
             rq_body = Some (JObject
               [(''sha'', JString (commit_sha commit)), (''force'', JBool True)])\<rparr> = (Inr j3, w4)"
      "GitHubReferenceSchema env j3 = Inr updated"
  shows "pushFiles env owner repo branch edits message s =
      (Inr updated,
       s\<lparr>world := w4,
         calls := calls s @
        [Request \<lparr>rq_url = api @ owner @ ''/'' @ repo @ ''/git/refs/heads/'' @ branch,
                  rq_method = None, rq_body = None\<rparr>,
         Request \<lparr>rq_url = api @ owner @ ''/'' @ repo @ ''/git/trees'',
                  rq_method = Some ''POST'',
                  rq_body = Some (JObject
                    [(''tree'', JArray (map (\<lambda>edit. JObject
                         [(''path'', JString (fo_path edit)), (''mode'', JString ''100644''),
                          (''type'', JString ''blob''), (''content'', JString (fo_content edit))]) edits)),
                     (''base_tree'', JString C0)])\<rparr>,
         Request \<lparr>rq_url = api @ owner @ ''/'' @ repo @ ''/git/commits'',
                  rq_method = Some ''POST'',
                  rq_body = Some (JObject
                    [(''message'', JString message), (''tree'', JString (tree_sha tree)),
                     (''parents'', JArray [JString C0])])\<rparr>,
         Request \<lparr>rq_url = api @ owner @ ''/'' @ repo @ ''/git/refs/'' @ ''heads/'' @ branch,
                  rq_method = Some ''PATCH'',
                  rq_body = Some (JObject
                    [(''sha'', JString (commit_sha commit)), (''force'', JBool True)])\<rparr>]\<rparr>)"
  using head tree commit update unfolding api_def
  by (simp add: pushFiles_def createTree_def createCommit_def updateReference_def
        await_def githubRequest_def parse_def)

theorem pushFiles_sequence_witness:
  "pushFiles scripted_env ''o'' ''r'' ''main''
     [\<lparr>fo_path = ''a.txt'', fo_content = ''X''\<rparr>, \<lparr>fo_path = ''b.txt'', fo_content = ''Y''\<rparr>] ''msg''
     (start ([Inr (reference_json ''refs/heads/main'' ''C0''), Inr (sha_json ''T1''),
              Inr (sha_json ''C1''), Inr (reference_json ''refs/heads/main'' ''C1'')], []))
   = (Inr \<lparr>ref_name = ''refs/heads/main'', object_sha = ''C1''\<rparr>,
      \<lparr>world = ([], []),
       calls =
         [Request \<lparr>rq_url = ''https://api.github.com/repos/o/r/git/refs/heads/main'',
                   rq_method = None, rq_body = None\<rparr>,
          Request \<lparr>rq_url = ''https://api.github.com/repos/o/r/git/trees'',
                   rq_method = Some ''POST'',
                   rq_body = Some (JObject
                     [(''tree'', JArray
                        [JObject [(''path'', JString ''a.txt''), (''mode'', JString ''100644''),
                                  (''type'', JString ''blob''), (''content'', JString ''X'')],
                         JObject [(''path'', JString ''b.txt''), (''mode'', JString ''100644''),
                                  (''type'', JString ''blob''), (''content'', JString ''Y'')]]),
                      (''base_tree'', JString ''C0'')])\<rparr>,
          Request \<lparr>rq_url = ''https://api.github.com/repos/o/r/git/commits'',
                   rq_method = Some ''POST'',
                   rq_body = Some (JObject
                     [(''message'', JString ''msg''), (''tree'', JString ''T1''),
                      (''parents'', JArray [JString ''C0''])])\<rparr>,
          Request \<lparr>rq_url = ''https://api.github.com/repos/o/r/git/refs/heads/main'',
                   rq_method = Some ''PATCH'',
                   rq_body = Some (JObject [(''sha'', JString ''C1''), (''force'', JBool True)])\<rparr>],
       console = []\<rparr>)"
  using pushFiles_sequence[where env = scripted_env and owner = "''o''" and repo = "''r''"
      and branch = "''main''" and message = "''msg''"
      and edits = "[\<lparr>fo_path = ''a.txt'', fo_content = ''X''\<rparr>, \<lparr>fo_path = ''b.txt'', fo_content = ''Y''\<rparr>]"
      and s = "start ([Inr (reference_json ''refs/heads/main'' ''C0''), Inr (sha_json ''T1''),
              Inr (sha_json ''C1''), Inr (reference_json ''refs/heads/main'' ''C1'')], [])"
      and ?j0.0 = "reference_json ''refs/heads/main'' ''C0''"
      and ?w1.0 = "([Inr (sha_json ''T1''), Inr (sha_json ''C1''), Inr (reference_json ''refs/heads/main'' ''C1'')], [])"
      and head = "\<lparr>ref_name = ''refs/heads/main'', object_sha = ''C0''\<rparr>" and ?C0.0 = "''C0''"
      and ?j1.0 = "sha_json ''T1''"
      and ?w2.0 = "([Inr (sha_json ''C1''), Inr (reference_json ''refs/heads/main'' ''C1'')], [])"
      and tree = "\<lparr>tree_sha = ''T1''\<rparr>"
      and ?j2.0 = "sha_json ''C1''"
      and ?w3.0 = "([Inr (reference_json ''refs/heads/main'' ''C1'')], [])"
      and commit = "\<lparr>commit_sha = ''C1''\<rparr>"
      and ?j3.0 = "reference_json ''refs/heads/main'' ''C1''"
      and ?w4.0 = "([], [])"
      and updated = "\<lparr>ref_name = ''refs/heads/main'', object_sha = ''C1''\<rparr>"]
  by (simp add: scripted_simps)

text \<open>
  C1 as stated fails in its last part: when the remote side answers the update with a
  reference that still carries \<open>C0\<close>, that reference is returned, although the update
  was sent with the SHA \<open>C1\<close> of the new commit.
\<close>

theorem pushFiles_answer_unchecked:
  "pushFiles scripted_env ''o'' ''r'' ''main'' [\<lparr>fo_path = ''a.txt'', fo_content = ''X''\<rparr>] ''msg''
     (start ([Inr (reference_json ''refs/heads/main'' ''C0''), Inr (sha_json ''T1''),
              Inr (sha_json ''C1''), Inr (reference_json ''refs/heads/main'' ''C0'')], []))
   = (Inr \<lparr>ref_name = ''refs/heads/main'', object_sha = ''C0''\<rparr>,
      \<lparr>world = ([], []),
       calls =
         [Request \<lparr>rq_url = ''https://api.github.com/repos/o/r/git/refs/heads/main'',
                   rq_method = None, rq_body = None\<rparr>,
          Request \<lparr>rq_url = ''https://api.github.com/repos/o/r/git/trees'',
                   rq_method = Some ''POST'',
                   rq_body = Some (JObject
                     [(''tree'', JArray
                        [JObject [(''path'', JString ''a.txt''), (''mode'', JString ''100644''),
                                  (''type'', JString ''blob''), (''content'', JString ''X'')]]),
                      (''base_tree'', JString ''C0'')])\<rparr>,
          Request \<lparr>rq_url = ''https://api.github.com/repos/o/r/git/commits'',
                   rq_method = Some ''POST'',
                   rq_body = Some (JObject
                     [(''message'', JString ''msg''), (''tree'', JString ''T1''),
                      (''parents'', JArray [JString ''C0''])])\<rparr>,
          Request \<lparr>rq_url = ''https://api.github.com/repos/o/r/git/refs/heads/main'',
                   rq_method = Some ''PATCH'',
                   rq_body = Some (JObject [(''sha'', JString ''C1''), (''force'', JBool True)])\<rparr>],
       console = []\<rparr>)
   \<and> ''C0'' \<noteq> ''C1''"
  by (simp add: pushFiles_def createTree_def createCommit_def updateReference_def
        await_def githubRequest_def parse_def scripted_simps)

text \<open>
  C5. When the call that creates the tree, the call that creates the commit or the call
  that updates the reference fails, the push ends there: its result is the error of that
  call, unchanged, the failed call is the last call issued, and every call before it was
  issued once.
\<close>

theorem pushFiles_aborts:
  fixes env :: "'w env" and s :: "'w st" and owner repo branch message :: string
    and edits :: "FileOperation list"
  defines "api \<equiv> ''https://api.github.com/repos/''"
  defines "ReadHead \<equiv>
            \<lparr>rq_url = api @ owner @ ''/'' @ repo @ ''/git/refs/heads/'' @ branch,
             rq_method = None, rq_body = None\<rparr>"
  defines "BuildTree \<equiv> \<lambda>base.
            \<lparr>rq_url = api @ owner @ ''/'' @ repo @ ''/git/trees'',
             rq_method = Some ''POST'',
             rq_body = Some (JObject
               [(''tree'', JArray (map (\<lambda>edit. JObject
                    [(''path'', JString (fo_path edit)), (''mode'', JString ''100644''),
                     (''type'', JString ''blob''), (''content'', JString (fo_content edit))]) edits)),
                (''base_tree'', JString base)])\<rparr>"
  defines "BuildCommit \<equiv> \<lambda>tree parent.
            \<lparr>rq_url = api @ owner @ ''/'' @ repo @ ''/git/commits'',
             rq_method = Some ''POST'',
             rq_body = Some (JObject
               [(''message'', JString message), (''tree'', JString tree),
                (''parents'', JArray [JString parent])])\<rparr>"
  defines "UpdateRef \<equiv> \<lambda>new.
            \<lparr>rq_url = api @ owner @ ''/'' @ repo @ ''/git/refs/'' @ ''heads/'' @ branch,
             rq_method = Some ''PATCH'',
             rq_body = Some (JObject [(''sha'', JString new), (''force'', JBool True)])\<rparr>"
  assumes head: "transport env (world s) ReadHead = (Inr j0, w1)"
      "GitHubReferenceSchema env j0 = Inr head"
  shows "(transport env w1 (BuildTree (object_sha head)) = (Inl e, w2)
          \<longrightarrow> pushFiles env owner repo branch edits message s
              = (Inl e, s\<lparr>world := w2,
                          calls := calls s @ [Request ReadHead, Request (BuildTree (object_sha head))]\<rparr>))
       \<and> (transport env w1 (BuildTree (object_sha head)) = (Inr j1, w2)
          \<and> GitHubTreeSchema env j1 = Inr tree
          \<and> transport env w2 (BuildCommit (tree_sha tree) (object_sha head)) = (Inl e, w3)
          \<longrightarrow> pushFiles env owner repo branch edits message s
              = (Inl e, s\<lparr>world := w3,
                          calls := calls s @ [Request ReadHead, Request (BuildTree (object_sha head)),
                                              Request (BuildCommit (tree_sha tree) (object_sha head))]\<rparr>))
       \<and> (transport env w1 (BuildTree (object_sha head)) = (Inr j1, w2)
          \<and> GitHubTreeSchema env j1 = Inr tree
          \<and> transport env w2 (BuildCommit (tree_sha tree) (object_sha head)) = (Inr j2, w3)
          \<and> GitHubCommitSchema env j2 = Inr commit
          \<and> transport env w3 (UpdateRef (commit_sha commit)) = (Inl e, w4)
          \<longrightarrow> pushFiles env owner repo branch edits message s
              = (Inl e, s\<lparr>world := w4,
                          calls := calls s @ [Request ReadHead, Request (BuildTree (object_sha head)),
                                              Request (BuildCommit (tree_sha tree) (object_sha head)),
                                              Request (UpdateRef (commit_sha commit))]\<rparr>))"
  using head unfolding api_def ReadHead_def BuildTree_def BuildCommit_def UpdateRef_def
  by (simp add: pushFiles_def createTree_def createCommit_def updateReference_def
        await_def githubRequest_def parse_def)

theorem pushFiles_aborts_witness:
  "fst (pushFiles scripted_env ''o'' ''r'' ''main'' [\<lparr>fo_path = ''a.txt'', fo_content = ''X''\<rparr>] ''msg''
          (start ([Inr (reference_json ''refs/heads/main'' ''C0''), Inl (HttpError 500)], [])))
     = Inl (HttpError 500)
   \<and> length (calls (snd (pushFiles scripted_env ''o'' ''r'' ''main'' [\<lparr>fo_path = ''a.txt'', fo_content = ''X''\<rparr>] ''msg''
          (start ([Inr (reference_json ''refs/heads/main'' ''C0''), Inl (HttpError 500)], []))))) = 2
   \<and> fst (pushFiles scripted_env ''o'' ''r'' ''main'' [\<lparr>fo_path = ''a.txt'', fo_content = ''X''\<rparr>] ''msg''
          (start ([Inr (reference_json ''refs/heads/main'' ''C0''), Inr (sha_json ''T1''), Inl (HttpError 404)], [])))
     = Inl (HttpError 404)
   \<and> length (calls (snd (pushFiles scripted_env ''o'' ''r'' ''main'' [\<lparr>fo_path = ''a.txt'', fo_content = ''X''\<rparr>] ''msg''
          (start ([Inr (reference_json ''refs/heads/main'' ''C0''), Inr (sha_json ''T1''), Inl (HttpError 404)], []))))) = 3
   \<and> fst (pushFiles scripted_env ''o'' ''r'' ''main'' [\<lparr>fo_path = ''a.txt'', fo_content = ''X''\<rparr>] ''msg''
          (start ([Inr (reference_json ''refs/heads/main'' ''C0''), Inr (sha_json ''T1''), Inr (sha_json ''C1''), Inl (HttpError 422)], [])))
     = Inl (HttpError 422)
   \<and> length (calls (snd (pushFiles scripted_env ''o'' ''r'' ''main'' [\<lparr>fo_path = ''a.txt'', fo_content = ''X''\<rparr>] ''msg''
          (start ([Inr (reference_json ''refs/heads/main'' ''C0''), Inr (sha_json ''T1''), Inr (sha_json ''C1''), Inl (HttpError 422)], []))))) = 4"
proof -
  have a1: "fst (pushFiles scripted_env ''o'' ''r'' ''main'' [\<lparr>fo_path = ''a.txt'', fo_content = ''X''\<rparr>] ''msg''
          (start ([Inr (reference_json ''refs/heads/main'' ''C0''), Inl (HttpError 500)], [])))
     = Inl (HttpError 500)
   \<and> length (calls (snd (pushFiles scripted_env ''o'' ''r'' ''main'' [\<lparr>fo_path = ''a.txt'', fo_content = ''X''\<rparr>] ''msg''
          (start ([Inr (reference_json ''refs/heads/main'' ''C0''), Inl (HttpError 500)], []))))) = 2"
    using pushFiles_aborts[where env = scripted_env and owner = "''o''" and repo = "''r''"
        and branch = "''main''" and message = "''msg''" and edits = "[\<lparr>fo_path = ''a.txt'', fo_content = ''X''\<rparr>]"
        and ?j0.0 = "reference_json ''refs/heads/main'' ''C0''"
        and head = "\<lparr>ref_name = ''refs/heads/main'', object_sha = ''C0''\<rparr>"
        and s = "start ([Inr (reference_json ''refs/heads/main'' ''C0''), Inl (HttpError 500)], [])"
        and ?w1.0 = "([Inl (HttpError 500)], [])" and e = "HttpError 500" and ?w2.0 = "([], [])"]
    by (simp add: scripted_simps)
  have a2: "fst (pushFiles scripted_env ''o'' ''r'' ''main'' [\<lparr>fo_path = ''a.txt'', fo_content = ''X''\<rparr>] ''msg''
          (start ([Inr (reference_json ''refs/heads/main'' ''C0''), Inr (sha_json ''T1''), Inl (HttpError 404)], [])))
     = Inl (HttpError 404)
   \<and> length (calls (snd (pushFiles scripted_env ''o'' ''r'' ''main'' [\<lparr>fo_path = ''a.txt'', fo_content = ''X''\<rparr>] ''msg''
          (start ([Inr (reference_json ''refs/heads/main'' ''C0''), Inr (sha_json ''T1''), Inl (HttpError 404)], []))))) = 3"
    using pushFiles_aborts[where env = scripted_env and owner = "''o''" and repo = "''r''"
        and branch = "''main''" and message = "''msg''" and edits = "[\<lparr>fo_path = ''a.txt'', fo_content = ''X''\<rparr>]"
        and ?j0.0 = "reference_json ''refs/heads/main'' ''C0''"
        and head = "\<lparr>ref_name = ''refs/heads/main'', object_sha = ''C0''\<rparr>"
        and s = "start ([Inr (reference_json ''refs/heads/main'' ''C0''), Inr (sha_json ''T1''), Inl (HttpError 404)], [])"
        and ?w1.0 = "([Inr (sha_json ''T1''), Inl (HttpError 404)], [])" and ?j1.0 = "sha_json ''T1''"
        and ?w2.0 = "([Inl (HttpError 404)], [])" and tree = "\<lparr>tree_sha = ''T1''\<rparr>"
        and e = "HttpError 404" and ?w3.0 = "([], [])"]
    by (simp add: scripted_simps)
  have a3: "fst (pushFiles scripted_env ''o'' ''r'' ''main'' [\<lparr>fo_path = ''a.txt'', fo_content = ''X''\<rparr>] ''msg''
          (start ([Inr (reference_json ''refs/heads/main'' ''C0''), Inr (sha_json ''T1''), Inr (sha_json ''C1''), Inl (HttpError 422)], [])))
     = Inl (HttpError 422)
   \<and> length (calls (snd (pushFiles scripted_env ''o'' ''r'' ''main'' [\<lparr>fo_path = ''a.txt'', fo_content = ''X''\<rparr>] ''msg''
          (start ([Inr (reference_json ''refs/heads/main'' ''C0''), Inr (sha_json ''T1''), Inr (sha_json ''C1''), Inl (HttpError 422)], []))))) = 4"
    using pushFiles_aborts[where env = scripted_env and owner = "''o''" and repo = "''r''"
        and branch = "''main''" and message = "''msg''" and edits = "[\<lparr>fo_path = ''a.txt'', fo_content = ''X''\<rparr>]"
        and ?j0.0 = "reference_json ''refs/heads/main'' ''C0''"
        and head = "\<lparr>ref_name = ''refs/heads/main'', object_sha = ''C0''\<rparr>"
        and s = "start ([Inr (reference_json ''refs/heads/main'' ''C0''), Inr (sha_json ''T1''), Inr (sha_json ''C1''), Inl (HttpError 422)], [])"
        and ?w1.0 = "([Inr (sha_json ''T1''), Inr (sha_json ''C1''), Inl (HttpError 422)], [])" and ?j1.0 = "sha_json ''T1''"
        and ?w2.0 = "([Inr (sha_json ''C1''), Inl (HttpError 422)], [])" and tree = "\<lparr>tree_sha = ''T1''\<rparr>"
        and ?j2.0 = "sha_json ''C1''" and ?w3.0 = "([Inl (HttpError 422)], [])"
        and commit = "\<lparr>commit_sha = ''C1''\<rparr>"
        and e = "HttpError 422" and ?w4.0 = "([], [])"]
    by (simp add: scripted_simps)
  from a1 a2 a3 show ?thesis by (intro conjI) (elim conjE, assumption)+
qed

subsection \<open>createOrUpdateFile: the content\<close>

text \<open>
  C3, as the code has it. With neither \<open>content\<close> nor \<open>published_artifact_url\<close> the
  function throws before any call is made. With \<open>content\<close> it takes the content as it
  is and makes no call, whether or not a URL is given as well. With a URL alone it
  fetches the document. It is the input schema that rejects both fields together (and
  neither): its refinements hold exactly when one of the two is given.
\<close>

theorem resolveFileContent_sources:
  "resolveFileContent env None None s
     = (Inl (Error ''Either 'content' or 'published_artifact_url' must be provided''), s)
   \<and> resolveFileContent env (Some c) published_artifact_url s = (Inr c, s)
   \<and> calls (snd (resolveFileContent env None (Some u) s)) = calls s @ [Fetch u]
   \<and> (CreateOrUpdateFileSchema_refine content published_artifact_url = Inr ()
        \<longleftrightarrow> (content = None) \<noteq> (published_artifact_url = None))"
  by (auto simp: resolveFileContent_def await_def fetch_def throw_def return_value_def
        CreateOrUpdateFileSchema_refine_def split: prod.splits sum.splits option.splits)

theorem resolveFileContent_sources_witness:
  "resolveFileContent scripted_env None None (start ([], []))
     = (Inl (Error ''Either 'content' or 'published_artifact_url' must be provided''), start ([], []))
   \<and> resolveFileContent scripted_env (Some ''X'') None (start ([], [])) = (Inr ''X'', start ([], []))
   \<and> calls (snd (resolveFileContent scripted_env None (Some ''http://a/2'')
                    (start ([], [Inr ''<code>X</code>''])))) = [Fetch ''http://a/2'']
   \<and> CreateOrUpdateFileSchema_refine (Some ''X'') None = Inr ()
   \<and> CreateOrUpdateFileSchema_refine None (Some ''http://a/2'') = Inr ()
   \<and> CreateOrUpdateFileSchema_refine (Some ''X'') (Some ''http://a/2'') \<noteq> Inr ()
   \<and> CreateOrUpdateFileSchema_refine None None \<noteq> Inr ()"
proof -
  note a = resolveFileContent_sources[where env = scripted_env and s = "start ([], [])" and c = "''X''"
      and published_artifact_url = None and content = "Some ''X''"]
  note b = resolveFileContent_sources[where env = scripted_env
      and s = "start ([], [Inr ''<code>X</code>''])" and u = "''http://a/2''"
      and content = None and published_artifact_url = "Some ''http://a/2''"]
  note c = resolveFileContent_sources[where env = scripted_env and s = "start ([], [])"
      and content = "Some ''X''" and published_artifact_url = "Some ''http://a/2''"]
  note d = resolveFileContent_sources[where env = scripted_env and s = "start ([], [])"
      and content = None and published_artifact_url = None]
  from a b c d show ?thesis by (simp add: start_def)
qed

text \<open>
  C3 as stated fails where both are given: the content is returned and nothing is
  thrown.
\<close>

theorem resolveFileContent_both_given:
  "resolveFileContent scripted_env (Some ''X'') (Some ''http://a/2'')
     (start ([], [Inr ''<code>Y</code>'']))
   = (Inr ''X'', start ([], [Inr ''<code>Y</code>'']))"
  by (simp add: resolveFileContent_def return_value_def)

text \<open>
  C2, as the code has it. When the fetched document has no code block region the
  function throws; when it has one or more, the text of the first region is decoded
  and becomes the content.
\<close>

theorem resolveFileContent_regions:
  assumes "fetch_text env (world s) u = (Inr html, w)"
  shows "(code_regions html = []
            \<longrightarrow> resolveFileContent env None (Some u) s
                  = (Inl (Error ''Could not find a singular <code> block in the published artifact''),
                     s\<lparr>world := w, calls := calls s @ [Fetch u]\<rparr>))
       \<and> (code_regions html = g # gs
            \<longrightarrow> resolveFileContent env None (Some u) s
                  = (Inr (decodeHTMLEntities g), s\<lparr>world := w, calls := calls s @ [Fetch u]\<rparr>))"
  using assms
  by (simp add: resolveFileContent_def await_def fetch_def throw_def return_value_def match_code_regions)

theorem resolveFileContent_regions_witness:
  "fst (resolveFileContent scripted_env None (Some ''http://a/1'')
          (start ([], [Inr ''<p>no code here</p>''])))
     = Inl (Error ''Could not find a singular <code> block in the published artifact'')
   \<and> fst (resolveFileContent scripted_env None (Some ''http://a/2'')
          (start ([], [Inr ''<pre><code class=x>a &lt; b</code></pre>''])))
     = Inr ''a < b''"
proof -
  have r1: "code_regions ''<p>no code here</p>'' = []"
    by (simp add: regex_eval)
  have r2: "code_regions ''<pre><code class=x>a &lt; b</code></pre>'' = [''a &lt; b'']"
    by (simp add: regex_eval)
  have d: "decodeHTMLEntities ''a &lt; b'' = ''a < b''"
    by (simp add: regex_eval)
  have 1: "fst (resolveFileContent scripted_env None (Some ''http://a/1'')
          (start ([], [Inr ''<p>no code here</p>''])))
     = Inl (Error ''Could not find a singular <code> block in the published artifact'')"
    using resolveFileContent_regions[where env = scripted_env and u = "''http://a/1''"
        and s = "start ([], [Inr ''<p>no code here</p>''])" and html = "''<p>no code here</p>''"
        and w = "([], [])"] r1
    by (simp add: scripted_simps)
  have 2: "fst (resolveFileContent scripted_env None (Some ''http://a/2'')
          (start ([], [Inr ''<pre><code class=x>a &lt; b</code></pre>''])))
     = Inr ''a < b''"
    using resolveFileContent_regions[where env = scripted_env and u = "''http://a/2''"
        and s = "start ([], [Inr ''<pre><code class=x>a &lt; b</code></pre>''])"
        and html = "''<pre><code class=x>a &lt; b</code></pre>''"
        and w = "([], [])" and g = "''a &lt; b''" and gs = "[]"] r2 d
    by (simp add: scripted_simps)
  from 1 2 show ?thesis by simp
qed

text \<open>
  C2 as stated fails on a document with two regions: the first one is returned.
\<close>

theorem resolveFileContent_two_regions:
  "code_regions ''<code>A</code><code>B</code>'' = [''A'', ''B'']
   \<and> resolveFileContent scripted_env None (Some ''http://a/3'')
          (start ([], [Inr ''<code>A</code><code>B</code>'']))
     = (Inr ''A'', \<lparr>world = ([], []), calls = [Fetch ''http://a/3''], console = []\<rparr>)"
  by (simp add: regex_eval resolveFileContent_def await_def fetch_def return_value_def throw_def
        match_code_regions scripted_simps)

subsection \<open>createOrUpdateFile: the SHA and the write\<close>

text \<open>
  C4. When no \<open>sha\<close> is given, the file at \<open>path\<close> on \<open>branch\<close> is read once. If the
  read returns a single file, its SHA becomes \<open>currentSha\<close>. If the read throws, whatever
  the error, the error is not passed on: a note is written, \<open>currentSha\<close> stays
  undefined, and the write is issued with no \<open>sha\<close> field, as for a new file; the
  result is the result of the write.
\<close>

theorem createOrUpdateFile_reads_sha:
  fixes env :: "'w env" and s :: "'w st" and owner repo path branch message :: string
  defines "api \<equiv> ''https://api.github.com/repos/''"
  defines "note \<equiv> ''Note: File does not exist in branch, will create new file''"
  defines "read \<equiv>
            \<lparr>rq_url = api @ owner @ ''/'' @ repo @ ''/contents/'' @ path
                       @ (if branch \<noteq> [] then ''?ref='' @ branch else []),
             rq_method = None, rq_body = None\<rparr>"
  defines "write \<equiv> \<lambda>fileContent sha_field.
            \<lparr>rq_url = api @ owner @ ''/'' @ repo @ ''/contents/'' @ path,
             rq_method = Some ''PUT'',
             rq_body = Some (JObject
               ([(''message'', JString message),
                 (''content'', JString (to_base64 env fileContent)),
                 (''branch'', JString branch)] @ sha_field))\<rparr>"
  assumes rc: "resolveFileContent env content published_artifact_url s = (Inr fileContent, s1)"
    and gf: "getFileContents env owner repo path (Some branch) s1 = (r, s2)"
  shows "calls (snd (resolveCurrentSha env owner repo path branch None s1)) = calls s1 @ [Request read]
       \<and> (r = Inr (File f)
            \<longrightarrow> resolveCurrentSha env owner repo path branch None s1 = (Inr (Some (fc_sha f)), s2)
              \<and> calls (snd (createOrUpdateFile env owner repo path content published_artifact_url
                               message branch None s))
                  = calls s1 @ [Request read,
                                Request (write fileContent
                                   (if fc_sha f \<noteq> [] then [(''sha'', JString (fc_sha f))] else []))])
       \<and> (r = Inl e
            \<longrightarrow> resolveCurrentSha env owner repo path branch None s1
                  = (Inr None, s2\<lparr>console := console s2 @ [note]\<rparr>)
              \<and> createOrUpdateFile env owner repo path content published_artifact_url message branch None s
                  = await (githubRequest env (write fileContent []))
                      (\<lambda>response. parse (GitHubCreateUpdateFileResponseSchema env) response)
                      (s2\<lparr>console := console s2 @ [note]\<rparr>)
              \<and> calls (snd (createOrUpdateFile env owner repo path content published_artifact_url
                               message branch None s))
                  = calls s1 @ [Request read, Request (write fileContent [])])"
proof (intro conjI impI)
  have c: "calls s2 = calls s1 @ [Request read]"
    using getFileContents_calls[of env owner repo path "Some branch" s1] gf
    by (simp add: read_def api_def)
  show "calls (snd (resolveCurrentSha env owner repo path branch None s1)) = calls s1 @ [Request read]"
    unfolding resolveCurrentSha_cases[OF gf]
    using c by (simp split: sum.splits GitHubContent.splits)
  {
    assume f: "r = Inr (File f)"
    then show rs: "resolveCurrentSha env owner repo path branch None s1 = (Inr (Some (fc_sha f)), s2)"
      by (simp add: resolveCurrentSha_cases[OF gf])
    show "calls (snd (createOrUpdateFile env owner repo path content published_artifact_url
                               message branch None s))
                  = calls s1 @ [Request read,
                                Request (write fileContent
                                   (if fc_sha f \<noteq> [] then [(''sha'', JString (fc_sha f))] else []))]"
      unfolding createOrUpdateFile_run[OF rc rs] await_parse_calls
      using c by (simp add: write_def api_def)
  }
  {
    assume e: "r = Inl e"
    then show rs: "resolveCurrentSha env owner repo path branch None s1
                  = (Inr None, s2\<lparr>console := console s2 @ [note]\<rparr>)"
      by (simp add: resolveCurrentSha_cases[OF gf] note_def)
    show "createOrUpdateFile env owner repo path content published_artifact_url message branch None s
                  = await (githubRequest env (write fileContent []))
                      (\<lambda>response. parse (GitHubCreateUpdateFileResponseSchema env) response)
                      (s2\<lparr>console := console s2 @ [note]\<rparr>)"
      unfolding createOrUpdateFile_run[OF rc rs] by (simp add: write_def api_def)
    show "calls (snd (createOrUpdateFile env owner repo path content published_artifact_url
                               message branch None s))
                  = calls s1 @ [Request read, Request (write fileContent [])]"
      unfolding createOrUpdateFile_run[OF rc rs] await_parse_calls
      using c by (simp add: write_def api_def)
  }
qed

theorem createOrUpdateFile_reads_sha_witness:
  "calls (snd (createOrUpdateFile scripted_env ''o'' ''r'' ''a.txt'' (Some ''X'') None ''msg'' ''main'' None
            (start ([Inr (file_json ''F0'' ''WQ==''), Inr (written_json ''C1'')], []))))
     = [Request \<lparr>rq_url = ''https://api.github.com/repos/o/r/contents/a.txt?ref=main'',
                  rq_method = None, rq_body = None\<rparr>,
        Request \<lparr>rq_url = ''https://api.github.com/repos/o/r/contents/a.txt'',
                  rq_method = Some ''PUT'',
                  rq_body = Some (JObject
                    [(''message'', JString ''msg''), (''content'', JString ''WA==''),
                     (''branch'', JString ''main''), (''sha'', JString ''F0'')])\<rparr>]
   \<and> createOrUpdateFile scripted_env ''o'' ''r'' ''a.txt'' (Some ''X'') None ''msg'' ''main'' None
            (start ([Inl (HttpError 404), Inr (written_json ''C1'')], []))
     = (Inr (written_json ''C1''),
        \<lparr>world = ([], []),
         calls =
           [Request \<lparr>rq_url = ''https://api.github.com/repos/o/r/contents/a.txt?ref=main'',
                     rq_method = None, rq_body = None\<rparr>,
            Request \<lparr>rq_url = ''https://api.github.com/repos/o/r/contents/a.txt'',
                     rq_method = Some ''PUT'',
                     rq_body = Some (JObject
                       [(''message'', JString ''msg''), (''content'', JString ''WA==''),
                        (''branch'', JString ''main'')])\<rparr>],
         console = [''Note: File does not exist in branch, will create new file'']\<rparr>)"
proof -
  have b: "to_base64 scripted_env ''X'' = ''WA==''" by code_simp
  have d: "from_base64 scripted_env ''WQ=='' = ''Y''" by code_simp
  have rc: "resolveFileContent scripted_env (Some ''X'') None t = (Inr ''X'', t)" for t
    by (simp add: resolveFileContent_def return_value_def)
  have g1: "getFileContents scripted_env ''o'' ''r'' ''a.txt'' (Some ''main'')
              (start ([Inr (file_json ''F0'' ''WQ==''), Inr (written_json ''C1'')], []))
            = (Inr (File \<lparr>fc_sha = ''F0'', fc_content = ''Y'', fc_other = []\<rparr>),
               \<lparr>world = ([Inr (written_json ''C1'')], []),
                calls = [Request \<lparr>rq_url = ''https://api.github.com/repos/o/r/contents/a.txt?ref=main'',
                                  rq_method = None, rq_body = None\<rparr>],
                console = []\<rparr>)"
    using d by (simp add: getFileContents_def await_def githubRequest_def parse_def return_value_def
        scripted_simps)
  have g2: "getFileContents scripted_env ''o'' ''r'' ''a.txt'' (Some ''main'')
              (start ([Inl (HttpError 404), Inr (written_json ''C1'')], []))
            = (Inl (HttpError 404),
               \<lparr>world = ([Inr (written_json ''C1'')], []),
                calls = [Request \<lparr>rq_url = ''https://api.github.com/repos/o/r/contents/a.txt?ref=main'',
                                  rq_method = None, rq_body = None\<rparr>],
                console = []\<rparr>)"
    by (simp add: getFileContents_def await_def githubRequest_def parse_def return_value_def
        scripted_simps)
  have 1: "calls (snd (createOrUpdateFile scripted_env ''o'' ''r'' ''a.txt'' (Some ''X'') None ''msg'' ''main'' None
            (start ([Inr (file_json ''F0'' ''WQ==''), Inr (written_json ''C1'')], []))))
     = [Request \<lparr>rq_url = ''https://api.github.com/repos/o/r/contents/a.txt?ref=main'',
                  rq_method = None, rq_body = None\<rparr>,
        Request \<lparr>rq_url = ''https://api.github.com/repos/o/r/contents/a.txt'',
                  rq_method = Some ''PUT'',
                  rq_body = Some (JObject
                    [(''message'', JString ''msg''), (''content'', JString ''WA==''),
                     (''branch'', JString ''main''), (''sha'', JString ''F0'')])\<rparr>]"
    using createOrUpdateFile_reads_sha[OF rc g1, where message = "''msg''"
        and f = "\<lparr>fc_sha = ''F0'', fc_content = ''Y'', fc_other = []\<rparr>"] b
    by (simp add: start_def)
  have 2: "createOrUpdateFile scripted_env ''o'' ''r'' ''a.txt'' (Some ''X'') None ''msg'' ''main'' None
            (start ([Inl (HttpError 404), Inr (written_json ''C1'')], []))
     = (Inr (written_json ''C1''),
        \<lparr>world = ([], []),
         calls =
           [Request \<lparr>rq_url = ''https://api.github.com/repos/o/r/contents/a.txt?ref=main'',
                     rq_method = None, rq_body = None\<rparr>,
            Request \<lparr>rq_url = ''https://api.github.com/repos/o/r/contents/a.txt'',
                     rq_method = Some ''PUT'',
                     rq_body = Some (JObject
                       [(''message'', JString ''msg''), (''content'', JString ''WA==''),
                        (''branch'', JString ''main'')])\<rparr>],
         console = [''Note: File does not exist in branch, will create new file'']\<rparr>)"
    using createOrUpdateFile_reads_sha[OF rc g2, where message = "''msg''" and e = "HttpError 404"] b
    by (simp add: await_def githubRequest_def parse_def scripted_simps)
  from 1 2 show ?thesis by simp
qed



text \<open>
  C9, as the code has it. When the caller gives a non-empty \<open>sha\<close>, the file is not
  read: \<open>currentSha\<close> is the given SHA and the state is untouched. The write is the only
  call to the hosting API after the content is resolved (the only call at all when the
  content is given), and its body carries the given SHA.
\<close>

theorem createOrUpdateFile_given_sha:
  fixes env :: "'w env" and s :: "'w st" and owner repo path branch message x :: string
  defines "write \<equiv> \<lambda>fileContent.
            \<lparr>rq_url = ''https://api.github.com/repos/'' @ owner @ ''/'' @ repo @ ''/contents/'' @ path,
             rq_method = Some ''PUT'',
             rq_body = Some (JObject
               [(''message'', JString message),
                (''content'', JString (to_base64 env fileContent)),
                (''branch'', JString branch),
                (''sha'', JString x)])\<rparr>"
  assumes x: "x \<noteq> []"
  shows "resolveCurrentSha env owner repo path branch (Some x) s1 = (Inr (Some x), s1)
       \<and> (resolveFileContent env content published_artifact_url s = (Inr fileContent, s1)
            \<longrightarrow> calls (snd (createOrUpdateFile env owner repo path content published_artifact_url
                               message branch (Some x) s))
                  = calls s1 @ [Request (write fileContent)])
       \<and> calls (snd (createOrUpdateFile env owner repo path (Some c) published_artifact_url
                        message branch (Some x) s))
           = calls s @ [Request (write c)]"
proof (intro conjI impI)
  show rs: "resolveCurrentSha env owner repo path branch (Some x) t = (Inr (Some x), t)" for t :: "'w st"
    using x by (simp add: resolveCurrentSha_def return_value_def)
  {
    assume rc: "resolveFileContent env content published_artifact_url s = (Inr fileContent, s1)"
    show "calls (snd (createOrUpdateFile env owner repo path content published_artifact_url
                               message branch (Some x) s))
                  = calls s1 @ [Request (write fileContent)]"
      unfolding createOrUpdateFile_run[OF rc rs] await_parse_calls
      using x by (simp add: write_def)
  }
  have rc: "resolveFileContent env (Some c) published_artifact_url s = (Inr c, s)"
    by (simp add: resolveFileContent_def return_value_def)
  show "calls (snd (createOrUpdateFile env owner repo path (Some c) published_artifact_url
                        message branch (Some x) s))
           = calls s @ [Request (write c)]"
    unfolding createOrUpdateFile_run[OF rc rs] await_parse_calls
    using x by (simp add: write_def)
qed

theorem createOrUpdateFile_given_sha_witness:
  "calls (snd (createOrUpdateFile scripted_env ''o'' ''r'' ''a.txt'' (Some ''X'') None ''msg'' ''main''
            (Some ''F9'') (start ([Inr (written_json ''C1'')], []))))
     = [Request \<lparr>rq_url = ''https://api.github.com/repos/o/r/contents/a.txt'',
                  rq_method = Some ''PUT'',
                  rq_body = Some (JObject
                    [(''message'', JString ''msg''), (''content'', JString ''WA==''),
                     (''branch'', JString ''main''), (''sha'', JString ''F9'')])\<rparr>]
   \<and> calls (snd (createOrUpdateFile scripted_env ''o'' ''r'' ''a.txt'' None (Some ''http://a/2'') ''msg''
            ''main'' (Some ''F9'') (start ([Inr (written_json ''C1'')], [Inr ''<code>X</code>'']))))
     = [Fetch ''http://a/2'',
        Request \<lparr>rq_url = ''https://api.github.com/repos/o/r/contents/a.txt'',
                  rq_method = Some ''PUT'',
                  rq_body = Some (JObject
                    [(''message'', JString ''msg''), (''content'', JString ''WA==''),
                     (''branch'', JString ''main''), (''sha'', JString ''F9'')])\<rparr>]"
proof -
  have b: "to_base64 scripted_env ''X'' = ''WA==''" by code_simp
  have x: "''F9'' \<noteq> []" by simp
  have m: "match_code ''<code>X</code>'' = Some ''X''"
    by (simp add: code_at_def)
  have rc: "resolveFileContent scripted_env None (Some ''http://a/2'')
              (start ([Inr (written_json ''C1'')], [Inr ''<code>X</code>'']))
            = (Inr ''X'',
               \<lparr>world = ([Inr (written_json ''C1'')], []),
                calls = [Fetch ''http://a/2''], console = []\<rparr>)"
    using m by (simp add: resolveFileContent_def await_def fetch_def return_value_def
        decode_no_amp scripted_simps)
  have 1: "calls (snd (createOrUpdateFile scripted_env ''o'' ''r'' ''a.txt'' (Some ''X'') None ''msg'' ''main''
            (Some ''F9'') (start ([Inr (written_json ''C1'')], []))))
     = [Request \<lparr>rq_url = ''https://api.github.com/repos/o/r/contents/a.txt'',
                  rq_method = Some ''PUT'',
                  rq_body = Some (JObject
                    [(''message'', JString ''msg''), (''content'', JString ''WA==''),
                     (''branch'', JString ''main''), (''sha'', JString ''F9'')])\<rparr>]"
    using createOrUpdateFile_given_sha[OF x, where env = scripted_env and owner = "''o''" and repo = "''r''"
      and path = "''a.txt''" and c = "''X''" and published_artifact_url = None and message = "''msg''"
      and branch = "''main''" and s = "start ([Inr (written_json ''C1'')], [])"] b
    by (simp add: start_def)
  have 2: "calls (snd (createOrUpdateFile scripted_env ''o'' ''r'' ''a.txt'' None (Some ''http://a/2'') ''msg''
            ''main'' (Some ''F9'') (start ([Inr (written_json ''C1'')], [Inr ''<code>X</code>'']))))
     = [Fetch ''http://a/2'',
        Request \<lparr>rq_url = ''https://api.github.com/repos/o/r/contents/a.txt'',
                  rq_method = Some ''PUT'',
                  rq_body = Some (JObject
                    [(''message'', JString ''msg''), (''content'', JString ''WA==''),
                     (''branch'', JString ''main''), (''sha'', JString ''F9'')])\<rparr>]"
    using createOrUpdateFile_given_sha[OF x, where env = scripted_env and owner = "''o''" and repo = "''r''"
      and path = "''a.txt''" and content = None and published_artifact_url = "Some ''http://a/2''"
      and message = "''msg''" and branch = "''main''" and fileContent = "''X''"
      and s = "start ([Inr (written_json ''C1'')], [Inr ''<code>X</code>''])"
      and ?s1.0 = "\<lparr>world = ([Inr (written_json ''C1'')], []),
                calls = [Fetch ''http://a/2''], console = []\<rparr>"] b rc
    by simp
  from 1 2 show ?thesis by simp
qed

text \<open>
  C9 as stated fails for the empty string, which is a string and is falsy: the file is
  read first, and the body carries the SHA that was read.
\<close>

theorem createOrUpdateFile_empty_sha:
  "calls (snd (createOrUpdateFile scripted_env ''o'' ''r'' ''a.txt'' (Some ''X'') None ''msg'' ''main''
            (Some '''') (start ([Inr (file_json ''F0'' ''WQ==''), Inr (written_json ''C1'')], []))))
     = [Request \<lparr>rq_url = ''https://api.github.com/repos/o/r/contents/a.txt?ref=main'',
                  rq_method = None, rq_body = None\<rparr>,
        Request \<lparr>rq_url = ''https://api.github.com/repos/o/r/contents/a.txt'',
                  rq_method = Some ''PUT'',
                  rq_body = Some (JObject
                    [(''message'', JString ''msg''), (''content'', JString ''WA==''),
                     (''branch'', JString ''main''), (''sha'', JString ''F0'')])\<rparr>]"
proof -
  have b: "to_base64 scripted_env ''X'' = ''WA==''" by code_simp
  have d: "from_base64 scripted_env ''WQ=='' = ''Y''" by code_simp
  show ?thesis using b d by (simp add: run_simps scripted_simps)
qed

end
